theory Spec2Isabelle
  imports Complex_Main
begin

section \<open>The telephony webhook bridge of tests/twilio/test\_webhook\_integration.py\<close>

text \<open>
  The bridge is one Python module: a signature check (\<open>validate_twilio_request\<close>), the
  control endpoint \<open>POST /incoming-call\<close> (\<open>handle_incoming_call\<close>) and the streaming
  endpoint \<open>/media-stream\<close> (\<open>handle_media_stream\<close>). This theory embeds the three
  functions. What they print is kept as a list of log lines, what they raise is a value
  of type \<open>error\<close>, and what the libraries hand to them (the parsed form, the decoded
  request body, the outcome of \<open>json.loads\<close>, the outcome of a socket read or write) is
  part of the input.
\<close>

subsection \<open>Python values\<close>

text \<open>The exception classes that can reach the handlers.\<close>

datatype error =
    UnicodeDecodeError
  | JSONDecodeError
  | AttributeError
  | TypeError
  | KeyError
  | ValueError
  | RuntimeError
  | HTTPException nat
  | WebSocketDisconnect
  | CancelledError

text \<open>
  \<open>except Exception\<close> catches every class above but \<open>CancelledError\<close>, which derives
  from \<open>BaseException\<close> only.
\<close>

fun is_Exception :: "error \<Rightarrow> bool" where
  "is_Exception CancelledError = False"
| "is_Exception _ = True"

text \<open>
  The values \<open>json.loads\<close> builds. A \<open>string\<close> is a Python \<open>str\<close> whose code points
  are below 256. Of a float only its being zero is ever inspected (truthiness), so a
  rational stands for it; NaN and the infinities behave as any non-zero float does.
  A dictionary is the list of its items.
\<close>

datatype json =
    JNone
  | JBool bool
  | JInt int
  | JFloat rat
  | JStr string
  | JList "json list"
  | JDict "(string \<times> json) list"

text \<open>\<open>bool(v)\<close>, as the conditional expression \<open>len(payload) if payload else 0\<close> uses it.\<close>

fun truthy :: "json \<Rightarrow> bool" where
  "truthy JNone = False"
| "truthy (JBool b) = b"
| "truthy (JInt i) = (i \<noteq> 0)"
| "truthy (JFloat q) = (q \<noteq> 0)"
| "truthy (JStr s) = (s \<noteq> [])"
| "truthy (JList xs) = (xs \<noteq> [])"
| "truthy (JDict kvs) = (kvs \<noteq> [])"

text \<open>\<open>len(v)\<close>: defined on strings, lists and dictionaries, a \<open>TypeError\<close> elsewhere.\<close>

fun py_len :: "json \<Rightarrow> error + nat" where
  "py_len (JStr s) = Inr (length s)"
| "py_len (JList xs) = Inr (length xs)"
| "py_len (JDict kvs) = Inr (length kvs)"
| "py_len _ = Inl TypeError"

text \<open>
  \<open>v.get(key, default)\<close>: only a dictionary has the method; on any other value the
  attribute lookup raises \<open>AttributeError\<close>.
\<close>

fun py_get :: "json \<Rightarrow> string \<Rightarrow> json \<Rightarrow> error + json" where
  "py_get (JDict kvs) k d = Inr (case map_of kvs k of None \<Rightarrow> d | Some v \<Rightarrow> v)"
| "py_get _ k d = Inl AttributeError"

subsection \<open>Strings\<close>

text \<open>\<open>str.lower()\<close> on code points below 256: A-Z and the Latin-1 capitals move by 32.\<close>

definition lower_char :: "char \<Rightarrow> char" where
  "lower_char c =
     (let n = (of_char c :: nat)
      in if (65 \<le> n \<and> n \<le> 90) \<or> (192 \<le> n \<and> n \<le> 222 \<and> n \<noteq> 215)
         then char_of (n + 32) else c)"

definition lower :: "string \<Rightarrow> string" where
  "lower s = map lower_char s"

text \<open>
  \<open>s.replace(old, new)\<close>: every occurrence of \<open>old\<close>, found from the left and not
  overlapping, becomes \<open>new\<close>; an empty \<open>old\<close> matches before every character and at
  the end.
\<close>

function replace_str :: "string \<Rightarrow> string \<Rightarrow> string \<Rightarrow> string" where
  "replace_str old new s =
     (if old = [] then new @ concat (map (\<lambda>c. c # new) s)
      else if s = [] then []
      else if take (length old) s = old
        then new @ replace_str old new (drop (length old) s)
      else hd s # replace_str old new (tl s))"
  by pat_completeness auto
termination
  by (relation "measure (\<lambda>(old, new, s). length s)") auto

declare replace_str.simps [simp del]


subsection \<open>Requests, responses and the control document\<close>

text \<open>
  What the handler reads of a Starlette \<open>Request\<close>: \<open>str(request.url)\<close>,
  \<open>str(request.base_url)\<close>, the headers (names in lower case, as the server delivers
  them), what \<open>await request.form()\<close> gives, and the body as \<open>body.decode()\<close> sees it.
  The form is the list of its fields in the order sent, or the exception the parser
  raises (\<open>HTTPException 400\<close> for a malformed multipart body). The body is \<open>Some s\<close>
  when the raw bytes are the UTF-8 encoding of \<open>s\<close>, \<open>None\<close> when they are not valid
  UTF-8 and \<open>decode\<close> raises \<open>UnicodeDecodeError\<close>.
\<close>

record request =
  url :: string
  base_url :: string
  headers :: "(string \<times> string) list"
  form :: "error + (string \<times> string) list"
  body :: "string option"

text \<open>\<open>request.headers.get(name, default)\<close>: header names compare without case.\<close>

definition headers_get :: "(string \<times> string) list \<Rightarrow> string \<Rightarrow> string \<Rightarrow> string" where
  "headers_get hs name d = (case map_of hs (lower name) of None \<Rightarrow> d | Some v \<Rightarrow> v)"

text \<open>\<open>form_data.get(name, default)\<close>: of a repeated field the last value is kept.\<close>

definition form_get :: "(string \<times> string) list \<Rightarrow> string \<Rightarrow> string \<Rightarrow> string" where
  "form_get fs name d = (case map_of (rev fs) name of None \<Rightarrow> d | Some v \<Rightarrow> v)"

text \<open>
  The process environment: \<open>TWILIO_AUTH_TOKEN\<close> is the module global read once at
  import, \<open>environ\<close> is what \<open>os.getenv\<close> sees when a request is served.
\<close>

record server =
  TWILIO_AUTH_TOKEN :: "string option"
  environ :: "(string \<times> string) list"

definition getenv :: "(string \<times> string) list \<Rightarrow> string \<Rightarrow> string \<Rightarrow> string" where
  "getenv env name d = (case map_of env name of None \<Rightarrow> d | Some v \<Rightarrow> v)"

subsection \<open>The carrier library's validator\<close>

text \<open>
  \<open>twilio.request_validator.RequestValidator\<close> is not part of the repository. Its
  \<open>validate(uri, params, signature)\<close> is embedded from the library's published source,
  with the URL parsing and the two hash functions as parameters:
  \<^item> \<open>parse_uri\<close> stands for \<open>urlparse\<close>, \<open>add_port\<close>, \<open>remove_port\<close> and \<open>parse_qs\<close>: the
    URL with and without its port, and the value of the query parameter \<open>bodySHA256\<close>
    when the query has one; \<open>ValueError\<close> when the URL does not parse;
  \<^item> \<open>hmac_sha1_base64 key text\<close> is the base64 text of the HMAC-SHA1 of \<open>text\<close>;
  \<^item> \<open>sha256_hex\<close> is the hexadecimal SHA-256 digest.
\<close>

record uri_parts =
  with_port :: string
  without_port :: string
  body_sha256 :: "string option"

record twilio =
  parse_uri :: "string \<Rightarrow> error + uri_parts"
  hmac_sha1_base64 :: "string \<Rightarrow> string \<Rightarrow> string"
  sha256_hex :: "string \<Rightarrow> string"

text \<open>
  The \<open>params\<close> argument on its way through \<open>validate\<close>: the string the caller handed
  in, or the empty dictionary that replaces it when the URL carries a body hash.
\<close>

datatype params = Str_Params string | Empty_Dict

text \<open>
  \<open>compute_signature(uri, params)\<close>: \<open>if params:\<close> loops over \<open>sorted(set(params))\<close> and
  calls \<open>get_values(params, name)\<close>, which ends in \<open>params[name]\<close>. For a non-empty
  string that indexes a \<open>str\<close> with a \<open>str\<close> and raises \<open>TypeError\<close>; for an empty
  string or an empty dictionary the loop is skipped and the URL alone is signed.
\<close>

fun compute_signature :: "twilio \<Rightarrow> string \<Rightarrow> string \<Rightarrow> params \<Rightarrow> error + string" where
  "compute_signature lib token uri (Str_Params s) =
     (if s \<noteq> [] then Inl TypeError else Inr (hmac_sha1_base64 lib token uri))"
| "compute_signature lib token uri Empty_Dict = Inr (hmac_sha1_base64 lib token uri)"

text \<open>
  \<open>RequestValidator(token).validate(uri, params, signature)\<close> for a \<open>params\<close> that is a
  string, which is what \<open>validate_twilio_request\<close> passes. \<open>compare\<close> is equality of
  strings.
\<close>

definition RequestValidator_validate ::
    "twilio \<Rightarrow> string \<Rightarrow> string \<Rightarrow> string \<Rightarrow> string \<Rightarrow> error + bool" where
  "RequestValidator_validate lib token uri body_text signature =
     (case parse_uri lib uri of
        Inl e \<Rightarrow> Inl e
      | Inr parts \<Rightarrow>
          (let (valid_body_hash, ps) =
                 (case body_sha256 parts of
                    Some h \<Rightarrow> (sha256_hex lib body_text = h, Empty_Dict)
                  | None \<Rightarrow> (True, Str_Params body_text))
           in case compute_signature lib token (without_port parts) ps of
                Inl e \<Rightarrow> Inl e
              | Inr s1 \<Rightarrow>
                  (case compute_signature lib token (with_port parts) ps of
                     Inl e \<Rightarrow> Inl e
                   | Inr s2 \<Rightarrow>
                       Inr (valid_body_hash \<and> (s1 = signature \<or> s2 = signature)))))"

text \<open>The control document: the verbs a \<open>VoiceResponse\<close> holds, in the order added.\<close>

datatype noun = Stream string

datatype verb = Say string | Start "noun list" | Pause nat

type_synonym voice_response = "verb list"

text \<open>
  A \<open>fastapi.Response\<close>: \<open>Response(status_code=403)\<close> has no content and no media type,
  \<open>Response(content=str(response), media_type=...)\<close> has the default status 200.
\<close>

datatype content = Empty | Markup voice_response

record response =
  status_code :: nat
  content :: content
  media_type :: "string option"

text \<open>The lines the two handlers print.\<close>

datatype line =
    Incoming_call_received
  | Call_from string
  | Call_to string
  | Call_SID string
  | Token_not_configured
  | Invalid_signature
  | TwiML_generated
  | WebSocket_connected
  | Media_stream_connected
  | Media_stream_started
  | Stream_SID json
  | Received_audio nat
  | Media_stream_stopped
  | WebSocket_error error
  | WebSocket_disconnected

subsection \<open>The signature check\<close>

text \<open>
  \<open>validate_twilio_request(request, body)\<close>. \<open>not TWILIO_AUTH_TOKEN\<close> holds for \<open>None\<close>
  and for the empty string. The result is what is printed, and the verdict or the
  exception the library call raises.
\<close>

definition token_missing :: "string option \<Rightarrow> bool" where
  "token_missing tok = (case tok of None \<Rightarrow> True | Some t \<Rightarrow> t = [])"

definition validate_twilio_request ::
    "twilio \<Rightarrow> string option \<Rightarrow> request \<Rightarrow> string \<Rightarrow> line list \<times> (error + bool)" where
  "validate_twilio_request lib tok req text =
     (case tok of
        None \<Rightarrow> ([Token_not_configured], Inr True)
      | Some t \<Rightarrow>
          if t = [] then ([Token_not_configured], Inr True)
          else
            (let signature = headers_get (headers req) ''X-Twilio-Signature'' [];
                 u = url req
             in ([], RequestValidator_validate lib t u text signature)))"

subsection \<open>The control endpoint\<close>

definition websocket_url :: "string \<Rightarrow> string" where
  "websocket_url base =
     replace_str ''https://'' ''wss://'' (replace_str ''http://'' ''ws://'' base)
       @ ''media-stream''"

definition simple_voice_twiml :: voice_response where
  "simple_voice_twiml =
     [Say ''Hello! This is your Pipecat AI agent. The webhook integration is working correctly.'',
      Say ''You can now integrate this with your voice AI system.'']"

definition media_stream_twiml :: "string \<Rightarrow> voice_response" where
  "media_stream_twiml base =
     [Say ''Connecting you to the AI agent. Please wait a moment.'',
      Start [Stream (websocket_url base)],
      Pause 3600]"

text \<open>
  \<open>handle_incoming_call(request)\<close>: the lines printed, and the response or the
  exception that leaves the handler. The form is parsed (line 48) before anything of it
  is printed, the body is decoded in the argument of the signature check (line 55), and
  an exception of the check leaves the handler as it is.
\<close>

definition handle_incoming_call ::
    "twilio \<Rightarrow> server \<Rightarrow> request \<Rightarrow> line list \<times> (error + response)" where
  "handle_incoming_call lib srv req =
     (case form req of
        Inl e \<Rightarrow> ([Incoming_call_received], Inl e)
      | Inr form_data \<Rightarrow>
          (let log0 =
                 [Incoming_call_received,
                  Call_from (form_get form_data ''From'' ''Unknown''),
                  Call_to (form_get form_data ''To'' ''Unknown''),
                  Call_SID (form_get form_data ''CallSid'' ''Unknown'')]
           in case body req of
                None \<Rightarrow> (log0, Inl UnicodeDecodeError)
              | Some text \<Rightarrow>
                  (case validate_twilio_request lib (TWILIO_AUTH_TOKEN srv) req text of
                     (vlog, Inl e) \<Rightarrow> (log0 @ vlog, Inl e)
                   | (vlog, Inr ok) \<Rightarrow>
                       if \<not> ok then
                         (log0 @ vlog @ [Invalid_signature],
                          Inr \<lparr>status_code = 403, content = Empty, media_type = None\<rparr>)
                       else
                         (let twiml =
                                (if lower (getenv (environ srv) ''SIMPLE_VOICE_TEST'' ''false'')
                                      = ''true''
                                 then simple_voice_twiml
                                 else media_stream_twiml (base_url req))
                          in (log0 @ vlog @ [TwiML_generated],
                              Inr \<lparr>status_code = 200, content = Markup twiml,
                                   media_type = Some ''application/xml''\<rparr>)))))"

subsection \<open>The streaming endpoint\<close>

text \<open>
  A text frame is given by what \<open>json.loads\<close> makes of it: the value it parses to, or
  \<open>Not_Json\<close> when the text is not JSON and \<open>json.loads\<close> raises.
\<close>

datatype text_message = Json json | Not_Json

fun json_loads :: "text_message \<Rightarrow> error + json" where
  "json_loads (Json v) = Inr v"
| "json_loads Not_Json = Inl JSONDecodeError"

text \<open>The outcome of one \<open>await websocket.receive_text()\<close>.\<close>

datatype receive = Text text_message | Receive_raises error

text \<open>
  The connection as the handler meets it: whether \<open>accept()\<close> raises; the outcomes of
  the successive \<open>receive_text()\<close> calls (after the last one the next call is still
  waiting for the peer); and the outcomes of the successive \<open>send_text()\<close> calls,
  \<open>None\<close> for a message written and \<open>Some e\<close> for a raise (calls beyond the list
  succeed).
\<close>

record websocket =
  accept_outcome :: "error option"
  inbox :: "receive list"
  send_outcomes :: "error option list"

text \<open>What the handler does to the outside: a printed line or a message written back.
  The message is the dictionary handed to \<open>json.dumps\<close>.\<close>

datatype effect = Print line | Send_Text json

text \<open>How one pass through the loop body ends.\<close>

datatype flow = Continue | Break | Raise error

text \<open>The echo built for a media event.\<close>

definition response_audio :: "json \<Rightarrow> json \<Rightarrow> json" where
  "response_audio sid payload =
     JDict [(''event'', JStr ''media''),
            (''streamSid'', sid),
            (''media'', JDict [(''payload'', payload)])]"

text \<open>
  \<open>await websocket.send_text(json.dumps(msg))\<close> against the remaining write outcomes.
\<close>

fun send_text :: "error option list \<Rightarrow> json \<Rightarrow> effect list \<times> flow \<times> error option list" where
  "send_text [] msg = ([Send_Text msg], Continue, [])"
| "send_text (None # rest) msg = ([Send_Text msg], Continue, rest)"
| "send_text (Some e # rest) msg = ([], Raise e, rest)"

text \<open>
  The body of the \<open>while True\<close> loop from \<open>data = json.loads(message)\<close> on: the
  \<open>if\<close>/\<open>elif\<close> chain over \<open>event\<close>, which has no final \<open>else\<close>.
\<close>

definition on_message ::
    "error option list \<Rightarrow> json \<Rightarrow> effect list \<times> flow \<times> error option list" where
  "on_message sends data =
     (case py_get data ''event'' JNone of
        Inl e \<Rightarrow> ([], Raise e, sends)
      | Inr event \<Rightarrow>
          if event = JStr ''connected'' then ([Print Media_stream_connected], Continue, sends)
          else if event = JStr ''start'' then
            (case py_get data ''start'' (JDict []) of
               Inl e \<Rightarrow> ([Print Media_stream_started], Raise e, sends)
             | Inr st \<Rightarrow>
                 (case py_get st ''streamSid'' JNone of
                    Inl e \<Rightarrow> ([Print Media_stream_started], Raise e, sends)
                  | Inr stream_sid \<Rightarrow>
                      ([Print Media_stream_started, Print (Stream_SID stream_sid)],
                       Continue, sends)))
          else if event = JStr ''media'' then
            (case py_get data ''media'' (JDict []) of
               Inl e \<Rightarrow> ([], Raise e, sends)
             | Inr m \<Rightarrow>
                 (case py_get m ''payload'' JNone of
                    Inl e \<Rightarrow> ([], Raise e, sends)
                  | Inr payload \<Rightarrow>
                      (case (if truthy payload then py_len payload else Inr 0) of
                         Inl e \<Rightarrow> ([], Raise e, sends)
                       | Inr n \<Rightarrow>
                           (case py_get data ''streamSid'' JNone of
                              Inl e \<Rightarrow> ([Print (Received_audio n)], Raise e, sends)
                            | Inr sid \<Rightarrow>
                                (case send_text sends (response_audio sid payload) of
                                   (es, fl, sends') \<Rightarrow>
                                     (Print (Received_audio n) # es, fl, sends'))))))
          else if event = JStr ''stop'' then ([Print Media_stream_stopped], Break, sends)
          else ([], Continue, sends))"

text \<open>
  How the loop is left: by \<open>break\<close>, by an exception, or not at all (\<open>Pending\<close>: the
  input is used up and the handler waits in \<open>receive_text\<close>).
\<close>

datatype exit = Stopped | Raised error | Pending

fun media_loop :: "error option list \<Rightarrow> receive list \<Rightarrow> effect list \<times> exit" where
  "media_loop sends [] = ([], Pending)"
| "media_loop sends (Receive_raises e # rs) = ([], Raised e)"
| "media_loop sends (Text message # rs) =
     (case json_loads message of
        Inl e \<Rightarrow> ([], Raised e)
      | Inr data \<Rightarrow>
          (case on_message sends data of
             (es, Continue, sends') \<Rightarrow>
               (case media_loop sends' rs of (es', x) \<Rightarrow> (es @ es', x))
           | (es, Break, sends') \<Rightarrow> (es, Stopped)
           | (es, Raise e, sends') \<Rightarrow> (es, Raised e)))"

text \<open>
  \<open>handle_media_stream(websocket)\<close>: \<open>accept()\<close> stands before the \<open>try\<close>; the
  \<open>except Exception\<close> clause prints the error; the \<open>finally\<close> clause prints the
  disconnect on every way out of the \<open>try\<close>.
\<close>

datatype status = Returned | Propagated error | Waiting

definition handle_media_stream :: "websocket \<Rightarrow> effect list \<times> status" where
  "handle_media_stream ws =
     (case accept_outcome ws of
        Some e \<Rightarrow> ([], Propagated e)
      | None \<Rightarrow>
          (case media_loop (send_outcomes ws) (inbox ws) of
             (es, Stopped) \<Rightarrow>
               (Print WebSocket_connected # es @ [Print WebSocket_disconnected], Returned)
           | (es, Raised e) \<Rightarrow>
               if is_Exception e then
                 (Print WebSocket_connected # es
                    @ [Print (WebSocket_error e), Print WebSocket_disconnected], Returned)
               else
                 (Print WebSocket_connected # es @ [Print WebSocket_disconnected],
                  Propagated e)
           | (es, Pending) \<Rightarrow> (Print WebSocket_connected # es, Waiting)))"

text \<open>The messages written back, in the order written.\<close>

fun sent :: "effect list \<Rightarrow> json list" where
  "sent [] = []"
| "sent (Send_Text m # es) = m # sent es"
| "sent (Print l # es) = sent es"

text \<open>The wire messages of the carrier's protocol, as \<open>json.loads\<close> returns them.\<close>

definition start_event :: "string \<Rightarrow> json" where
  "start_event sid = JDict [(''event'', JStr ''start''), (''start'', JDict [(''streamSid'', JStr sid)])]"

definition media_event :: "string \<Rightarrow> string \<Rightarrow> json" where
  "media_event sid payload =
     JDict [(''event'', JStr ''media''), (''streamSid'', JStr sid),
            (''media'', JDict [(''payload'', JStr payload)])]"

definition stop_event :: json where
  "stop_event = JDict [(''event'', JStr ''stop'')]"

subsection \<open>Reading a control document and a request\<close>



text \<open>The signature header as \<open>validate_twilio_request\<close> reads it.\<close>

definition signature_header :: "request \<Rightarrow> string" where
  "signature_header req = headers_get (headers req) ''X-Twilio-Signature'' []"

text \<open>Two strings of one length that differ at exactly one position.\<close>

definition differ_in_one_byte :: "string \<Rightarrow> string \<Rightarrow> bool" where
  "differ_in_one_byte a b =
     (length a = length b \<and> length (filter (\<lambda>(x, y). x \<noteq> y) (zip a b)) = 1)"

subsection \<open>Reading a stream message\<close>

text \<open>
  The \<open>event\<close> entry of a message as \<open>data.get("event")\<close> reads it, and whether the
  next \<open>send_text\<close> call succeeds.
\<close>

definition event_of :: "(string \<times> json) list \<Rightarrow> json" where
  "event_of kvs = (case map_of kvs ''event'' of None \<Rightarrow> JNone | Some v \<Rightarrow> v)"

fun next_send_ok :: "error option list \<Rightarrow> bool" where
  "next_send_ok (Some e # rest) = False"
| "next_send_ok _ = True"

text \<open>
  A media message the handler can echo: its \<open>event\<close> is \<open>media\<close>, its \<open>media\<close> entry is
  a dictionary holding \<open>payload\<close>, and the payload is falsy or has a length \<open>n\<close>, so
  that \<open>len(payload) if payload else 0\<close> is \<open>n\<close>. \<open>echo_of\<close> is the answer to it.
\<close>

definition media_message :: "(string \<times> json) list \<Rightarrow> json \<Rightarrow> nat \<Rightarrow> bool" where
  "media_message kvs payload n =
     (map_of kvs ''event'' = Some (JStr ''media'')
      \<and> (\<exists>m. map_of kvs ''media'' = Some (JDict m) \<and> map_of m ''payload'' = Some payload)
      \<and> (if truthy payload then py_len payload else Inr 0) = Inr n)"

definition echo_of :: "(string \<times> json) list \<Rightarrow> json \<Rightarrow> json" where
  "echo_of kvs payload =
     JDict [(''event'', JStr ''media''),
            (''streamSid'', (case map_of kvs ''streamSid'' of None \<Rightarrow> JNone | Some v \<Rightarrow> v)),
            (''media'', JDict [(''payload'', payload)])]"

text \<open>
  A start message whose \<open>start\<close> entry is a dictionary or absent, and the stream id
  \<open>data.get("start", {}).get("streamSid")\<close> reads from it.
\<close>

definition start_message :: "(string \<times> json) list \<Rightarrow> json \<Rightarrow> bool" where
  "start_message kvs sid =
     (map_of kvs ''event'' = Some (JStr ''start'')
      \<and> ((map_of kvs ''start'' = None \<and> sid = JNone)
         \<or> (\<exists>st. map_of kvs ''start'' = Some (JDict st)
                \<and> sid = (case map_of st ''streamSid'' of None \<Rightarrow> JNone | Some v \<Rightarrow> v))))"

subsection \<open>Example inputs\<close>

text \<open>
  A stand-in for the library's parameters, used only to run the handlers on examples
  whose URLs have no query: no URL carries a body hash, and the hash functions are
  placeholders that no example reaches.
\<close>

definition example_twilio :: twilio where
  "example_twilio =
     \<lparr>parse_uri = (\<lambda>u. Inr \<lparr>with_port = u, without_port = u, body_sha256 = None\<rparr>),
      hmac_sha1_base64 = (\<lambda>k t. k @ t),
      sha256_hex = (\<lambda>b. b)\<rparr>"

definition secret_server :: server where
  "secret_server = \<lparr>TWILIO_AUTH_TOKEN = Some ''shh'', environ = []\<rparr>"


definition bad_request :: request where
  "bad_request =
     \<lparr>url = ''http://bridge.test/incoming-call'', base_url = ''http://bridge.test/'',
      headers = [(''x-twilio-signature'', ''bad'')], form = Inr [(''CallSid'', ''CA1'')],
      body = Some ''CallSid=CA1''\<rparr>"


definition connection :: "receive list \<Rightarrow> websocket" where
  "connection rs = \<lparr>accept_outcome = None, inbox = rs, send_outcomes = []\<rparr>"

text \<open>Messages as the carrier sends them, with the entries the handler does not read.\<close>

definition carrier_start :: "(string \<times> json) list" where
  "carrier_start =
     [(''event'', JStr ''start''), (''sequenceNumber'', JStr ''1''),
      (''start'', JDict [(''accountSid'', JStr ''AC1''), (''streamSid'', JStr ''MZ1''),
                         (''callSid'', JStr ''CA1''), (''tracks'', JList [JStr ''inbound''])]),
      (''streamSid'', JStr ''MZ1'')]"

definition carrier_media :: "string \<Rightarrow> string \<Rightarrow> (string \<times> json) list" where
  "carrier_media seq payload =
     [(''event'', JStr ''media''), (''sequenceNumber'', JStr seq),
      (''media'', JDict [(''track'', JStr ''inbound''), (''chunk'', JStr seq),
                         (''timestamp'', JStr ''20''), (''payload'', JStr payload)]),
      (''streamSid'', JStr ''MZ1'')]"

definition carrier_stop :: "(string \<times> json) list" where
  "carrier_stop =
     [(''event'', JStr ''stop''), (''sequenceNumber'', JStr ''7''),
      (''stop'', JDict [(''accountSid'', JStr ''AC1''), (''callSid'', JStr ''CA1'')]),
      (''streamSid'', JStr ''MZ1'')]"


section \<open>Properties\<close>

subsection \<open>String replacement\<close>











subsection \<open>Facts about the library call and the example inputs\<close>

lemma header_name_lower: "lower ''X-Twilio-Signature'' = ''x-twilio-signature''"
  by code_simp


lemma differ_in_one_byte_neq: "differ_in_one_byte a b \<Longrightarrow> a \<noteq> b"
proof
  assume d: "differ_in_one_byte a b" and e: "a = b"
  have "filter (\<lambda>(x, y). x \<noteq> y) (zip b b) = []"
    by (auto simp: filter_empty_conv zip_same)
  with d e show False by (simp add: differ_in_one_byte_def)
qed

lemma differ_in_one_byte_nonempty: "differ_in_one_byte a b \<Longrightarrow> b \<noteq> []"
  by (auto simp: differ_in_one_byte_def)

lemma example_bodies_differ: "differ_in_one_byte ''CallSid=CA1'' ''CallSid=CA2''"
  by (simp add: differ_in_one_byte_def)

text \<open>
  The library call on a non-empty string, for a URL without a body hash: it raises,
  whatever the token and the signature are.
\<close>

lemma validate_str_raises:
  "parse_uri lib u = Inr parts \<Longrightarrow> body_sha256 parts = None \<Longrightarrow> b \<noteq> [] \<Longrightarrow>
   RequestValidator_validate lib t u b s = Inl TypeError"
  by (simp add: RequestValidator_validate_def)

lemma check_with_token:
  "t \<noteq> [] \<Longrightarrow> validate_twilio_request lib (Some t) req b =
     ([], RequestValidator_validate lib t (url req) b (signature_header req))"
  by (simp add: validate_twilio_request_def signature_header_def)

lemma check_without_token:
  "token_missing tok \<Longrightarrow> validate_twilio_request lib tok req b = ([Token_not_configured], Inr True)"
  by (cases tok) (simp_all add: token_missing_def validate_twilio_request_def)

lemma example_parse:
  "parse_uri example_twilio u = Inr \<lparr>with_port = u, without_port = u, body_sha256 = None\<rparr>"
  by (simp add: example_twilio_def)



text \<open>
  A form that does not parse ends the handler before the check, with the first line
  printed only.
\<close>

lemma malformed_form_raises:
  "form req = Inl e \<Longrightarrow> handle_incoming_call lib srv req = ([Incoming_call_received], Inl e)"
  by (simp add: handle_incoming_call_def)

subsection \<open>The control endpoint and the signature check\<close>

text \<open>
  Claim C1 fails on the code, by a slip: with a secret configured the check hands the
  decoded body, a string, to the library where the form fields belong. For every
  non-empty body (and a URL without a body hash) the library call raises \<open>TypeError\<close>,
  whatever the signature is, so the handler ends in that exception and the response with
  status 403 is never built; a body that is not valid UTF-8 ends in
  \<open>UnicodeDecodeError\<close> before the check. The 403 with empty content is given only where
  the library call returns false.
\<close>

theorem signature_check_raises:
  assumes "TWILIO_AUTH_TOKEN srv = Some t" and "t \<noteq> []" and "form req = Inr fs"
  shows "(body req = None \<longrightarrow> snd (handle_incoming_call lib srv req) = Inl UnicodeDecodeError)
       \<and> (\<forall>b parts. body req = Some b \<and> b \<noteq> [] \<and> parse_uri lib (url req) = Inr parts
              \<and> body_sha256 parts = None
            \<longrightarrow> snd (handle_incoming_call lib srv req) = Inl TypeError)
       \<and> (\<forall>b. body req = Some b
              \<and> RequestValidator_validate lib t (url req) b (signature_header req) = Inr False
            \<longrightarrow> snd (handle_incoming_call lib srv req) =
                  Inr \<lparr>status_code = 403, content = Empty, media_type = None\<rparr>)"
proof (intro conjI allI impI)
  assume "body req = None"
  then show "snd (handle_incoming_call lib srv req) = Inl UnicodeDecodeError"
    using assms(3) by (simp add: handle_incoming_call_def)
next
  fix b parts
  assume h: "body req = Some b \<and> b \<noteq> [] \<and> parse_uri lib (url req) = Inr parts
              \<and> body_sha256 parts = None"
  then have "validate_twilio_request lib (Some t) req b = ([], Inl TypeError)"
    using assms(2) by (simp add: check_with_token validate_str_raises)
  then show "snd (handle_incoming_call lib srv req) = Inl TypeError"
    using h assms(1,3) by (simp add: handle_incoming_call_def)
next
  fix b
  assume h: "body req = Some b
       \<and> RequestValidator_validate lib t (url req) b (signature_header req) = Inr False"
  then have "validate_twilio_request lib (Some t) req b = ([], Inr False)"
    using assms(2) by (simp add: check_with_token)
  then show "snd (handle_incoming_call lib srv req) =
                  Inr \<lparr>status_code = 403, content = Empty, media_type = None\<rparr>"
    using h assms(1,3) by (simp add: handle_incoming_call_def)
qed

theorem signature_check_raises_witness:
  "handle_incoming_call example_twilio secret_server bad_request =
     ([Incoming_call_received, Call_from ''Unknown'', Call_to ''Unknown'', Call_SID ''CA1''],
      Inl TypeError)"
proof -
  have tok: "TWILIO_AUTH_TOKEN secret_server = Some ''shh''" by (simp add: secret_server_def)
  have ne: "''shh'' \<noteq> []" by simp
  have f: "form bad_request = Inr [(''CallSid'', ''CA1'')]" by (simp add: bad_request_def)
  have b: "body bad_request = Some ''CallSid=CA1''" by (simp add: bad_request_def)
  have nb: "''CallSid=CA1'' \<noteq> []" by simp
  have p: "parse_uri example_twilio (url bad_request) =
      Inr \<lparr>with_port = url bad_request, without_port = url bad_request, body_sha256 = None\<rparr>"
    by (rule example_parse)
  from signature_check_raises [OF tok ne f, of example_twilio] b nb p
  have s: "snd (handle_incoming_call example_twilio secret_server bad_request) = Inl TypeError"
    by simp
  have l: "fst (handle_incoming_call example_twilio secret_server bad_request) =
      [Incoming_call_received, Call_from ''Unknown'', Call_to ''Unknown'', Call_SID ''CA1'']"
    by (simp add: handle_incoming_call_def bad_request_def secret_server_def form_get_def
          validate_twilio_request_def example_twilio_def RequestValidator_validate_def
          split: prod.splits sum.splits)
  from s l show ?thesis by (simp add: prod_eq_iff)
qed

text \<open>
  Claim C2: with no secret configured (\<open>TWILIO_AUTH_TOKEN\<close> unset or empty) the check
  prints the warning and accepts, whatever the URL, body and signature header are; with
  a secret configured it prints nothing and its outcome is that of the library call. So
  the check accepts every request exactly when no secret is configured.
\<close>

theorem missing_token_accepts:
  "(token_missing tok \<longrightarrow>
      validate_twilio_request lib tok req b = ([Token_not_configured], Inr True))
   \<and> (\<not> token_missing tok \<longrightarrow>
      validate_twilio_request lib tok req b =
        ([], RequestValidator_validate lib (the tok) (url req) b (signature_header req)))
   \<and> ((\<forall>l r c. snd (validate_twilio_request l tok r c) = Inr True) \<longleftrightarrow> token_missing tok)"
proof -
  have a: "token_missing tok \<Longrightarrow>
      validate_twilio_request l tok r c = ([Token_not_configured], Inr True)" for l r c
    by (rule check_without_token)
  have b: "\<not> token_missing tok \<Longrightarrow>
      validate_twilio_request l tok r c =
        ([], RequestValidator_validate l (the tok) (url r) c (signature_header r))" for l r c
    by (cases tok) (simp_all add: token_missing_def check_with_token)
  have c: "token_missing tok" if h: "\<forall>l r c. snd (validate_twilio_request l tok r c) = Inr True"
  proof (rule ccontr)
    assume n: "\<not> token_missing tok"
    from h have "snd (validate_twilio_request example_twilio tok bad_request ''x'') = Inr True"
      by blast
    with b [OF n] show False
      by (simp add: validate_str_raises [OF example_parse])
  qed
  have d: "\<forall>l r c. snd (validate_twilio_request l tok r c) = Inr True" if "token_missing tok"
    using a [OF that] by simp
  from a b c d show ?thesis by blast
qed

theorem missing_token_accepts_witness:
  "validate_twilio_request example_twilio None bad_request ''CallSid=CA1'' =
     ([Token_not_configured], Inr True)
   \<and> validate_twilio_request example_twilio (Some ''shh'') bad_request ''CallSid=CA1'' =
     ([], Inl TypeError)"
  using missing_token_accepts [of None example_twilio bad_request "''CallSid=CA1''"]
    missing_token_accepts [of "Some ''shh''" example_twilio bad_request "''CallSid=CA1''"]
  by (simp add: token_missing_def validate_str_raises [OF example_parse])




text \<open>
  Claim C8 fails on the code, by the slip of claim C1: with a secret configured and a URL
  without a body hash, the check does not return false on the altered body. The body is
  not empty, so the library call raises \<open>TypeError\<close>.
\<close>

theorem altered_body_raises:
  assumes "\<not> token_missing tok" and "parse_uri lib (url req) = Inr parts"
    and "body_sha256 parts = None" and "differ_in_one_byte b b'"
  shows "snd (validate_twilio_request lib tok req b') = Inl TypeError"
proof -
  from assms(1) obtain t where t: "tok = Some t" "t \<noteq> []"
    by (cases tok) (auto simp: token_missing_def)
  from assms(4) have "b' \<noteq> []" by (rule differ_in_one_byte_nonempty)
  with t assms(2,3) show ?thesis by (simp add: check_with_token validate_str_raises)
qed

theorem altered_body_raises_witness:
  "differ_in_one_byte ''CallSid=CA1'' ''CallSid=CA2''
   \<and> snd (validate_twilio_request example_twilio (Some ''shh'') bad_request ''CallSid=CA2'') =
       Inl TypeError"
proof -
  have tm: "\<not> token_missing (Some ''shh'')" by (simp add: token_missing_def)
  have p: "parse_uri example_twilio (url bad_request) =
      Inr \<lparr>with_port = url bad_request, without_port = url bad_request, body_sha256 = None\<rparr>"
    by (rule example_parse)
  have n: "body_sha256 \<lparr>with_port = url bad_request, without_port = url bad_request,
             body_sha256 = None\<rparr> = None" by simp
  from altered_body_raises [OF tm p n example_bodies_differ] example_bodies_differ
  show ?thesis by simp
qed

subsection \<open>The streaming loop\<close>

lemma sent_append: "sent (es @ es') = sent es @ sent es'"
  by (induction es rule: sent.induct) simp_all

lemma send_text_Continue:
  "send_text sends msg = (es, Continue, sends') \<Longrightarrow>
   es = [Send_Text msg] \<and> sends' = drop 1 sends"
  by (cases "(sends, msg)" rule: send_text.cases) auto

text \<open>Every message written uses up one write outcome.\<close>

lemma on_message_sends:
  "on_message sends data = (es, Continue, sends') \<Longrightarrow> sends' = drop (length (sent es)) sends"
  unfolding on_message_def
  by (auto split: sum.splits if_splits prod.splits dest!: send_text_Continue)

text \<open>
  A prefix of the input after which the loop is still running contributes its effects,
  and the loop goes on with the rest of the input and the write outcomes left.
\<close>

lemma media_loop_append:
  "media_loop sends pre = (es, Pending) \<Longrightarrow>
   media_loop sends (pre @ rest) =
     (es @ fst (media_loop (drop (length (sent es)) sends) rest),
      snd (media_loop (drop (length (sent es)) sends) rest))"
proof (induction sends pre arbitrary: es rule: media_loop.induct)
  case (1 sends)
  then show ?case by simp
next
  case (2 sends e rs)
  then show ?case by simp
next
  case (3 sends message rs)
  from "3.prems" obtain data where d: "json_loads message = Inr data"
    by (auto split: sum.splits)
  from "3.prems" d obtain es1 sends1 where o: "on_message sends data = (es1, Continue, sends1)"
    by (auto split: prod.splits flow.splits)
  from "3.prems" d o obtain es2 where l: "media_loop sends1 rs = (es2, Pending)"
    and e: "es = es1 @ es2"
    by (auto split: prod.splits)
  have s1: "sends1 = drop (length (sent es1)) sends" using o by (rule on_message_sends)
  have "media_loop sends1 (rs @ rest) =
     (es2 @ fst (media_loop (drop (length (sent es2)) sends1) rest),
      snd (media_loop (drop (length (sent es2)) sends1) rest))"
    using "3.IH" [OF d o [symmetric] refl refl l] .
  moreover have "drop (length (sent es2)) sends1 = drop (length (sent es)) sends"
    by (simp add: s1 e sent_append add.commute)
  ultimately show ?case using d o e by (simp split: prod.splits)
qed

subsection \<open>Single messages\<close>

lemma on_message_start: "on_message sends (start_event sid) =
    ([Print Media_stream_started, Print (Stream_SID (JStr sid))], Continue, sends)"
  by (simp add: on_message_def start_event_def)

lemma on_message_stop:
  "on_message sends stop_event = ([Print Media_stream_stopped], Break, sends)"
  by (simp add: on_message_def stop_event_def)

lemma on_message_media: "on_message sends (media_event sid p) =
    (case send_text sends (response_audio (JStr sid) (JStr p)) of
       (es, fl, sends') \<Rightarrow> (Print (Received_audio (length p)) # es, fl, sends'))"
  by (simp add: on_message_def media_event_def)

lemma on_message_unknown:
  "event_of kvs \<notin> {JStr ''connected'', JStr ''start'', JStr ''media'', JStr ''stop''} \<Longrightarrow>
   on_message sends (JDict kvs) = ([], Continue, sends)"
  by (simp add: on_message_def event_of_def)

lemma media_loop_start:
  "media_loop sends (Text (Json (start_event sid)) # rs) =
     (Print Media_stream_started # Print (Stream_SID (JStr sid)) # fst (media_loop sends rs),
      snd (media_loop sends rs))"
  by (simp add: on_message_start split: prod.splits)

lemma media_loop_media_ok:
  "media_loop [] (Text (Json (media_event sid p)) # rs) =
     (Print (Received_audio (length p)) # Send_Text (response_audio (JStr sid) (JStr p))
        # fst (media_loop [] rs),
      snd (media_loop [] rs))"
  by (simp add: on_message_media split: prod.splits)

lemma media_loop_stop:
  "media_loop sends (Text (Json stop_event) # rs) = ([Print Media_stream_stopped], Stopped)"
  by (simp add: on_message_stop)

lemma media_loop_unknown:
  "event_of kvs \<notin> {JStr ''connected'', JStr ''start'', JStr ''media'', JStr ''stop''} \<Longrightarrow>
   media_loop sends (Text (Json (JDict kvs)) # rs) = media_loop sends rs"
  by (simp add: on_message_unknown split: prod.splits)

text \<open>The three ways a pass through the loop raises: reading, decoding, writing.\<close>

lemma receive_failure: "media_loop s [Receive_raises e] = ([], Raised e)"
  by simp

lemma decode_failure: "media_loop s [Text Not_Json] = ([], Raised JSONDecodeError)"
  by simp

lemma send_failure:
  "media_loop (Some e # s) [Text (Json (media_event sid p))] =
     ([Print (Received_audio (length p))], Raised e)"
  by (simp add: on_message_media)

lemma media_loop_raised_cons:
  "media_loop s [bad] = (es, Raised e) \<Longrightarrow> media_loop s (bad # post) = (es, Raised e)"
  by (cases bad) (auto split: sum.splits prod.splits flow.splits)


subsection \<open>The streaming endpoint\<close>

text \<open>
  Claim C3, as stated, fails on a message that is not JSON: \<open>json.loads\<close> raises inside
  the \<open>try\<close> that encloses the whole loop, so the handler prints the error and the
  disconnect and returns; the media and stop events that follow are never read.
\<close>

theorem malformed_message_ends_session:
  "handle_media_stream
     \<lparr>accept_outcome = None,
      inbox = [Text Not_Json, Text (Json (media_event ''S1'' ''QUJD'')), Text (Json stop_event)],
      send_outcomes = []\<rparr> =
   ([Print WebSocket_connected, Print (WebSocket_error JSONDecodeError),
     Print WebSocket_disconnected], Returned)"
  by (simp add: handle_media_stream_def)

text \<open>
  Claim C3 (amended): at any point of the stream where the loop is still running, a
  message whose \<open>event\<close> is none of connected, start, media and stop is skipped without
  any effect (nothing is printed) and the loop goes on with the next message; a message
  that is not JSON ends the loop with \<open>JSONDecodeError\<close>, and the messages after it are
  not processed.
\<close>

theorem malformed_ends_unknown_skipped:
  assumes "media_loop sends pre = (es, Pending)"
  shows "media_loop sends (pre @ Text Not_Json # rs) = (es, Raised JSONDecodeError)
       \<and> (event_of kvs \<notin> {JStr ''connected'', JStr ''start'', JStr ''media'', JStr ''stop''}
          \<longrightarrow> media_loop sends (pre @ Text (Json (JDict kvs)) # rs) =
                media_loop sends (pre @ rs))"
proof (intro conjI impI)
  show "media_loop sends (pre @ Text Not_Json # rs) = (es, Raised JSONDecodeError)"
    using media_loop_append [OF assms, of "Text Not_Json # rs"] by simp
next
  assume "event_of kvs \<notin> {JStr ''connected'', JStr ''start'', JStr ''media'', JStr ''stop''}"
  then have "media_loop s (Text (Json (JDict kvs)) # rs) = media_loop s rs" for s
    by (rule media_loop_unknown)
  then show "media_loop sends (pre @ Text (Json (JDict kvs)) # rs) = media_loop sends (pre @ rs)"
    by (simp only: media_loop_append [OF assms])
qed

theorem malformed_ends_unknown_skipped_witness:
  "media_loop [] ([Text (Json (start_event ''S1''))] @ Text Not_Json # [Text (Json stop_event)])
     = ([Print Media_stream_started, Print (Stream_SID (JStr ''S1''))], Raised JSONDecodeError)
   \<and> media_loop []
        ([Text (Json (start_event ''S1''))] @ Text (Json (JDict [(''event'', JStr ''mark'')]))
           # [Text (Json stop_event)])
     = ([Print Media_stream_started, Print (Stream_SID (JStr ''S1'')),
         Print Media_stream_stopped], Stopped)"
proof -
  have p: "media_loop [] [Text (Json (start_event ''S1''))] =
      ([Print Media_stream_started, Print (Stream_SID (JStr ''S1''))], Pending)"
    by (simp add: on_message_start)
  have u: "event_of [(''event'', JStr ''mark'')] \<notin>
      {JStr ''connected'', JStr ''start'', JStr ''media'', JStr ''stop''}"
    by (simp add: event_of_def)
  have r: "media_loop [] ([Text (Json (start_event ''S1''))] @ [Text (Json stop_event)]) =
     ([Print Media_stream_started, Print (Stream_SID (JStr ''S1'')),
       Print Media_stream_stopped], Stopped)"
    by (simp add: on_message_start on_message_stop)
  from malformed_ends_unknown_skipped
         [OF p, of "[Text (Json stop_event)]" "[(''event'', JStr ''mark'')]"] u r
  show ?thesis by (simp only: simp_thms)
qed

subsection \<open>Messages as the carrier sends them\<close>


lemma echo_of_response_audio:
  "echo_of kvs payload =
     response_audio (case map_of kvs ''streamSid'' of None \<Rightarrow> JNone | Some v \<Rightarrow> v) payload"
  by (simp add: echo_of_def response_audio_def)

lemma on_message_media_message:
  "media_message kvs payload n \<Longrightarrow>
   on_message sends (JDict kvs) =
     (case send_text sends (echo_of kvs payload) of
        (es, fl, sends') \<Rightarrow> (Print (Received_audio n) # es, fl, sends'))"
  by (auto simp: media_message_def on_message_def echo_of_response_audio)

lemma on_message_start_message:
  "start_message kvs sid \<Longrightarrow>
   on_message sends (JDict kvs) =
     ([Print Media_stream_started, Print (Stream_SID sid)], Continue, sends)"
  by (auto simp: start_message_def on_message_def)


lemma on_message_stop_message:
  "map_of kvs ''event'' = Some (JStr ''stop'') \<Longrightarrow>
   on_message sends (JDict kvs) = ([Print Media_stream_stopped], Break, sends)"
  by (simp add: on_message_def)

lemma send_text_ok:
  "next_send_ok sends \<Longrightarrow> send_text sends msg = ([Send_Text msg], Continue, drop 1 sends)"
  by (cases "(sends, msg)" rule: send_text.cases) simp_all

lemma media_loop_media_message:
  "media_message kvs payload n \<Longrightarrow> next_send_ok sends \<Longrightarrow>
   media_loop sends (Text (Json (JDict kvs)) # rs) =
     (Print (Received_audio n) # Send_Text (echo_of kvs payload) # fst (media_loop (drop 1 sends) rs),
      snd (media_loop (drop 1 sends) rs))"
  by (simp add: on_message_media_message send_text_ok split: prod.splits)



lemma media_loop_stop_message:
  "map_of kvs ''event'' = Some (JStr ''stop'') \<Longrightarrow>
   media_loop sends (Text (Json (JDict kvs)) # rs) = ([Print Media_stream_stopped], Stopped)"
  by (simp add: on_message_stop_message)





lemma carrier_start_is_start: "start_message carrier_start (JStr ''MZ1'')"
  by (simp add: start_message_def carrier_start_def)

lemma carrier_media_is_media: "media_message (carrier_media seq p) (JStr p) (length p)"
  by (simp add: media_message_def carrier_media_def)

lemma carrier_stop_is_stop: "map_of carrier_stop ''event'' = Some (JStr ''stop'')"
  by (simp add: carrier_stop_def)

lemma echo_of_carrier_media:
  "echo_of (carrier_media seq p) (JStr p) =
     JDict [(''event'', JStr ''media''), (''streamSid'', JStr ''MZ1''),
            (''media'', JDict [(''payload'', JStr p)])]"
  by (simp add: echo_of_def carrier_media_def)

subsection \<open>Sessions, registry and backend\<close>




text \<open>
  Claim C6, as stated, fails: a media event that arrives with no start event before it
  is processed and echoed back like any other.
\<close>

theorem media_before_start_is_echoed:
  "handle_media_stream (connection [Text (Json (JDict (carrier_media ''2'' ''QUJD'')))]) =
   ([Print WebSocket_connected, Print (Received_audio 4),
     Send_Text (JDict [(''event'', JStr ''media''), (''streamSid'', JStr ''MZ1''),
                       (''media'', JDict [(''payload'', JStr ''QUJD'')])])],
    Waiting)"
  using media_loop_media_message [OF carrier_media_is_media, of "[]" "''2''" "''QUJD''" "[]"]
  by (simp add: handle_media_stream_def connection_def echo_of_carrier_media
        del: media_loop.simps(3))

text \<open>
  Claim C6 (amended): media events that arrive before any start event are not rejected;
  the handler keeps no session and no registry, and what it does with a message does not
  depend on the messages before it. At any point of the stream where the loop is still
  running, with or without a start event before, a media event whose \<open>media.payload\<close> is
  a string (or any other value that is falsy or has a length) and whose write succeeds
  is answered with exactly one echo, and the loop goes on with the next message; after
  any other beginning of the stream that used as many writes, the same message gets the
  same answer.
\<close>

theorem media_without_start_echoed:
  assumes "media_loop sends pre = (es, Pending)"
    and "media_message kvs payload n"
    and "next_send_ok (drop (length (sent es)) sends)"
  shows "media_loop sends (pre @ Text (Json (JDict kvs)) # rs) =
           (es @ Print (Received_audio n) # Send_Text (echo_of kvs payload)
              # fst (media_loop (drop (Suc (length (sent es))) sends) rs),
            snd (media_loop (drop (Suc (length (sent es))) sends) rs))
       \<and> (\<forall>pre' es'. media_loop sends pre' = (es', Pending)
              \<and> length (sent es') = length (sent es)
            \<longrightarrow> media_loop sends (pre' @ Text (Json (JDict kvs)) # rs) =
                  (es' @ Print (Received_audio n) # Send_Text (echo_of kvs payload)
                     # fst (media_loop (drop (Suc (length (sent es))) sends) rs),
                   snd (media_loop (drop (Suc (length (sent es))) sends) rs)))"
proof -
  have one: "media_loop sends (p @ Text (Json (JDict kvs)) # rs) =
           (e @ Print (Received_audio n) # Send_Text (echo_of kvs payload)
              # fst (media_loop (drop (Suc (length (sent es))) sends) rs),
            snd (media_loop (drop (Suc (length (sent es))) sends) rs))"
    if p: "media_loop sends p = (e, Pending)" and l: "length (sent e) = length (sent es)"
    for p e
  proof -
    have ok: "next_send_ok (drop (length (sent e)) sends)" using assms(3) l by simp
    have d: "drop 1 (drop (length (sent e)) sends) = drop (Suc (length (sent es))) sends"
      using l by simp
    show ?thesis
      by (simp only: media_loop_append [OF p] media_loop_media_message [OF assms(2) ok] d
            fst_conv snd_conv)
  qed
  from one [OF assms(1) refl] one show ?thesis by blast
qed

theorem media_without_start_echoed_witness:
  "media_loop [] ([] @ Text (Json (JDict (carrier_media ''2'' ''QUJD'')))
       # [Text (Json (JDict carrier_stop))]) =
     ([Print (Received_audio 4),
       Send_Text (JDict [(''event'', JStr ''media''), (''streamSid'', JStr ''MZ1''),
                         (''media'', JDict [(''payload'', JStr ''QUJD'')])]),
       Print Media_stream_stopped], Stopped)
   \<and> media_loop [] ([Text (Json (JDict [(''event'', JStr ''connected'')]))]
       @ Text (Json (JDict (carrier_media ''2'' ''QUJD''))) # [Text (Json (JDict carrier_stop))]) =
     ([Print Media_stream_connected, Print (Received_audio 4),
       Send_Text (JDict [(''event'', JStr ''media''), (''streamSid'', JStr ''MZ1''),
                         (''media'', JDict [(''payload'', JStr ''QUJD'')])]),
       Print Media_stream_stopped], Stopped)
   \<and> media_loop [] ([Text (Json (JDict carrier_start))]
       @ Text (Json (JDict (carrier_media ''2'' ''QUJD''))) # [Text (Json (JDict carrier_stop))]) =
     ([Print Media_stream_started, Print (Stream_SID (JStr ''MZ1'')), Print (Received_audio 4),
       Send_Text (JDict [(''event'', JStr ''media''), (''streamSid'', JStr ''MZ1''),
                         (''media'', JDict [(''payload'', JStr ''QUJD'')])]),
       Print Media_stream_stopped], Stopped)"
proof -
  have p0: "media_loop [] [] = ([], Pending)" by simp
  have p1: "media_loop [] [Text (Json (JDict [(''event'', JStr ''connected'')]))] =
      ([Print Media_stream_connected], Pending)"
    by (simp add: on_message_def)
  have p2: "media_loop [] [Text (Json (JDict carrier_start))] =
      ([Print Media_stream_started, Print (Stream_SID (JStr ''MZ1''))], Pending)"
    by (simp add: on_message_start_message [OF carrier_start_is_start])
  have ok: "next_send_ok (drop (length (sent [])) [])" by simp
  have stop: "media_loop s [Text (Json (JDict carrier_stop))] = ([Print Media_stream_stopped], Stopped)"
    for s by (rule media_loop_stop_message [OF carrier_stop_is_stop])
  note t = media_without_start_echoed [OF p0 carrier_media_is_media ok,
      of "''2''" "''QUJD''" "[Text (Json (JDict carrier_stop))]"]
  from t have a: "media_loop [] ([] @ Text (Json (JDict (carrier_media ''2'' ''QUJD'')))
       # [Text (Json (JDict carrier_stop))]) =
     ([Print (Received_audio 4),
       Send_Text (JDict [(''event'', JStr ''media''), (''streamSid'', JStr ''MZ1''),
                         (''media'', JDict [(''payload'', JStr ''QUJD'')])]),
       Print Media_stream_stopped], Stopped)"
    by (simp del: media_loop.simps add: stop echo_of_carrier_media)
  from t have gen: "media_loop [] (pre' @ Text (Json (JDict (carrier_media ''2'' ''QUJD'')))
         # [Text (Json (JDict carrier_stop))]) =
       (es' @ Print (Received_audio (length ''QUJD''))
          # Send_Text (echo_of (carrier_media ''2'' ''QUJD'') (JStr ''QUJD''))
          # fst (media_loop (drop (Suc (length (sent []))) []) [Text (Json (JDict carrier_stop))]),
        snd (media_loop (drop (Suc (length (sent []))) []) [Text (Json (JDict carrier_stop))]))"
    if "media_loop [] pre' = (es', Pending)" and "length (sent es') = length (sent [])"
    for pre' es'
    using that by blast
  from gen [OF p1] have b: "media_loop [] ([Text (Json (JDict [(''event'', JStr ''connected'')]))]
       @ Text (Json (JDict (carrier_media ''2'' ''QUJD''))) # [Text (Json (JDict carrier_stop))]) =
     ([Print Media_stream_connected, Print (Received_audio 4),
       Send_Text (JDict [(''event'', JStr ''media''), (''streamSid'', JStr ''MZ1''),
                         (''media'', JDict [(''payload'', JStr ''QUJD'')])]),
       Print Media_stream_stopped], Stopped)"
    by (simp del: media_loop.simps add: stop echo_of_carrier_media)
  from gen [OF p2] have c: "media_loop [] ([Text (Json (JDict carrier_start))]
       @ Text (Json (JDict (carrier_media ''2'' ''QUJD''))) # [Text (Json (JDict carrier_stop))]) =
     ([Print Media_stream_started, Print (Stream_SID (JStr ''MZ1'')), Print (Received_audio 4),
       Send_Text (JDict [(''event'', JStr ''media''), (''streamSid'', JStr ''MZ1''),
                         (''media'', JDict [(''payload'', JStr ''QUJD'')])]),
       Print Media_stream_stopped], Stopped)"
    by (simp del: media_loop.simps add: stop echo_of_carrier_media)
  from a b c show ?thesis by (simp only: simp_thms)
qed





subsection \<open>Errors on the streaming connection\<close>



subsection \<open>The echo\<close>

text \<open>
  Claim C10, as stated, fails on a media event whose payload is present but is neither
  empty nor sized: for the payload \<open>5\<close> the expression \<open>len(payload)\<close> raises
  \<open>TypeError\<close>, nothing is written back and the loop ends.
\<close>

theorem numeric_payload_not_echoed:
  "handle_media_stream
     (connection [Text (Json (JDict [(''event'', JStr ''media''), (''streamSid'', JStr ''S1''),
                                     (''media'', JDict [(''payload'', JInt 5)])]))]) =
   ([Print WebSocket_connected, Print (WebSocket_error TypeError), Print WebSocket_disconnected],
    Returned)"
  by (simp add: handle_media_stream_def connection_def on_message_def)

text \<open>
  Claim C10 (amended): for every received media event whose \<open>media.payload\<close> is present
  and is a string (or any other value that is falsy or has a length), when the write
  succeeds the handler writes back exactly one message before it processes the next
  event: a dictionary with event \<open>media\<close>, the payload received under
  \<open>media.payload\<close>, and \<open>streamSid\<close> copied from the event's top-level \<open>streamSid\<close>
  (\<open>None\<close> when that is absent).
\<close>

theorem media_echoed_once:
  assumes "map_of kvs ''event'' = Some (JStr ''media'')"
    and "map_of kvs ''media'' = Some (JDict m)"
    and "map_of m ''payload'' = Some payload"
    and "(if truthy payload then py_len payload else Inr 0) = Inr n"
    and "next_send_ok sends"
  shows "media_loop sends (Text (Json (JDict kvs)) # rs) =
     (Print (Received_audio n)
        # Send_Text (JDict [(''event'', JStr ''media''),
                            (''streamSid'', (case map_of kvs ''streamSid'' of
                                               None \<Rightarrow> JNone | Some v \<Rightarrow> v)),
                            (''media'', JDict [(''payload'', payload)])])
        # fst (media_loop (drop 1 sends) rs),
      snd (media_loop (drop 1 sends) rs))"
proof -
  let ?msg = "response_audio
    (case map_of kvs ''streamSid'' of None \<Rightarrow> JNone | Some v \<Rightarrow> v) payload"
  have s: "send_text sends ?msg = ([Send_Text ?msg], Continue, drop 1 sends)"
    using assms(5) by (cases "(sends, ?msg)" rule: send_text.cases) simp_all
  have "on_message sends (JDict kvs) =
          ([Print (Received_audio n), Send_Text ?msg], Continue, drop 1 sends)"
    using assms(1-4) s by (simp add: on_message_def)
  then show ?thesis by (simp add: response_audio_def split: prod.splits)
qed

theorem media_echoed_once_witness:
  "media_loop [] (Text (Json (JDict [(''event'', JStr ''media''),
                                    (''media'', JDict [(''payload'', JStr ''QUJD'')])]))
                  # [Text (Json stop_event)]) =
     ([Print (Received_audio 4),
       Send_Text (JDict [(''event'', JStr ''media''), (''streamSid'', JNone),
                         (''media'', JDict [(''payload'', JStr ''QUJD'')])]),
       Print Media_stream_stopped],
      Stopped)"
  using media_echoed_once
      [of "[(''event'', JStr ''media''), (''media'', JDict [(''payload'', JStr ''QUJD'')])]"
      "[(''payload'', JStr ''QUJD'')]" "JStr ''QUJD''" 4 "[]" "[Text (Json stop_event)]"]
  by (simp add: on_message_stop)

end
